theory Spec2Isabelle
  imports Complex_Main
begin

section \<open>Python values and the operations the module applies to them\<close>

text \<open>
  The module \<^verbatim>\<open>scripts/stock-analysis/database.py\<close> receives loosely structured
  records: dictionaries with string keys whose values are numbers, strings, lists and
  nested dictionaries. \<open>'f\<close> is the type of float values; the module never computes
  with them, it only coerces, so floats stay abstract. A dictionary is an association
  list; a lookup takes the first binding of a key.
\<close>

datatype 'f pyval =
    PNone
  | PBool bool
  | PInt int
  | PFloat 'f
  | PStr string
  | PList "'f pyval list"
  | PDict "(string \<times> 'f pyval) list"

text \<open>
  The exceptions the module can meet, all subclasses of Python's \<^verbatim>\<open>Exception\<close>.
  \<open>ClientError\<close> stands for whatever the database client raises from \<^verbatim>\<open>execute()\<close>.
\<close>

datatype error =
    KeyError
  | TypeError
  | ValueError
  | OverflowError
  | AttributeError
  | IndexError
  | ClientError

definition bindE :: "error + 'a \<Rightarrow> ('a \<Rightarrow> error + 'b) \<Rightarrow> error + 'b" where
  "bindE r f = (case r of Inl e \<Rightarrow> Inl e | Inr x \<Rightarrow> f x)"

text \<open>A loop that builds a list element by element and stops at the first exception.\<close>

fun mapE :: "('a \<Rightarrow> error + 'b) \<Rightarrow> 'a list \<Rightarrow> error + 'b list" where
  "mapE f [] = Inr []"
| "mapE f (x # xs) =
     (case f x of
        Inl e \<Rightarrow> Inl e
      | Inr y \<Rightarrow> (case mapE f xs of Inl e \<Rightarrow> Inl e | Inr ys \<Rightarrow> Inr (y # ys)))"

text \<open>
  The numeric kernels of \<^verbatim>\<open>float()\<close>, \<^verbatim>\<open>int()\<close>, truth testing and \<^verbatim>\<open>+ 1\<close> on
  floats are parameters: rounding, overflow and the parsing of numeric strings are
  Python's, and every theorem below holds whatever they return.
\<close>

record 'f numerics =
  float_of_int :: "int \<Rightarrow> error + 'f"
  float_of_str :: "string \<Rightarrow> error + 'f"
  int_of_float :: "'f \<Rightarrow> error + int"
  int_of_str :: "string \<Rightarrow> error + int"
  float_nonzero :: "'f \<Rightarrow> bool"
  float_succ :: "'f \<Rightarrow> 'f"

definition py_float :: "'f numerics \<Rightarrow> 'f pyval \<Rightarrow> error + 'f" where
  "py_float num v =
     (case v of
        PFloat f \<Rightarrow> Inr f
      | PInt i \<Rightarrow> float_of_int num i
      | PBool b \<Rightarrow> float_of_int num (if b then 1 else 0)
      | PStr s \<Rightarrow> float_of_str num s
      | _ \<Rightarrow> Inl TypeError)"

definition py_int :: "'f numerics \<Rightarrow> 'f pyval \<Rightarrow> error + int" where
  "py_int num v =
     (case v of
        PInt i \<Rightarrow> Inr i
      | PBool b \<Rightarrow> Inr (if b then 1 else 0)
      | PFloat f \<Rightarrow> int_of_float num f
      | PStr s \<Rightarrow> int_of_str num s
      | _ \<Rightarrow> Inl TypeError)"

text \<open>Truth value of an object, as \<^verbatim>\<open>if x:\<close> and \<^verbatim>\<open>x and y\<close> test it.\<close>

definition truthy :: "'f numerics \<Rightarrow> 'f pyval \<Rightarrow> bool" where
  "truthy num v =
     (case v of
        PNone \<Rightarrow> False
      | PBool b \<Rightarrow> b
      | PInt i \<Rightarrow> i \<noteq> 0
      | PFloat f \<Rightarrow> float_nonzero num f
      | PStr s \<Rightarrow> s \<noteq> []
      | PList xs \<Rightarrow> xs \<noteq> []
      | PDict d \<Rightarrow> d \<noteq> [])"

text \<open>\<^verbatim>\<open>v[k]\<close> with a string key: only a dictionary accepts it.\<close>

definition getitem :: "'f pyval \<Rightarrow> string \<Rightarrow> error + 'f pyval" where
  "getitem v k =
     (case v of
        PDict d \<Rightarrow> (case map_of d k of None \<Rightarrow> Inl KeyError | Some x \<Rightarrow> Inr x)
      | _ \<Rightarrow> Inl TypeError)"

text \<open>\<^verbatim>\<open>v.get(k, dflt)\<close>: only a dictionary has the method.\<close>

definition py_get :: "'f pyval \<Rightarrow> string \<Rightarrow> 'f pyval \<Rightarrow> error + 'f pyval" where
  "py_get v k dflt =
     (case v of
        PDict d \<Rightarrow> Inr (case map_of d k of None \<Rightarrow> dflt | Some x \<Rightarrow> x)
      | _ \<Rightarrow> Inl AttributeError)"

text \<open>\<^verbatim>\<open>v[i]\<close> with \<open>i\<close> drawn from \<^verbatim>\<open>range(...)\<close>, so never negative.\<close>

definition py_index :: "'f pyval \<Rightarrow> nat \<Rightarrow> error + 'f pyval" where
  "py_index v i =
     (case v of
        PList xs \<Rightarrow> (if i < length xs then Inr (xs ! i) else Inl IndexError)
      | PStr s \<Rightarrow> (if i < length s then Inr (PStr [s ! i]) else Inl IndexError)
      | PDict d \<Rightarrow> Inl KeyError
      | _ \<Rightarrow> Inl TypeError)"

definition py_len :: "'f pyval \<Rightarrow> error + nat" where
  "py_len v =
     (case v of
        PList xs \<Rightarrow> Inr (length xs)
      | PStr s \<Rightarrow> Inr (length s)
      | PDict d \<Rightarrow> Inr (length d)
      | _ \<Rightarrow> Inl TypeError)"

text \<open>The elements a \<^verbatim>\<open>for\<close> loop or a comprehension draws from \<open>v\<close>.\<close>

definition py_iter :: "'f pyval \<Rightarrow> error + 'f pyval list" where
  "py_iter v =
     (case v of
        PList xs \<Rightarrow> Inr xs
      | PStr s \<Rightarrow> Inr (map (\<lambda>c. PStr [c]) s)
      | PDict d \<Rightarrow> Inr (map (\<lambda>kv. PStr (fst kv)) d)
      | _ \<Rightarrow> Inl TypeError)"

text \<open>\<^verbatim>\<open>idx + 1\<close> on a row label.\<close>

definition py_add_one :: "'f numerics \<Rightarrow> 'f pyval \<Rightarrow> error + 'f pyval" where
  "py_add_one num v =
     (case v of
        PInt i \<Rightarrow> Inr (PInt (i + 1))
      | PBool b \<Rightarrow> Inr (PInt ((if b then 1 else 0) + 1))
      | PFloat f \<Rightarrow> Inr (PFloat (float_succ num f))
      | _ \<Rightarrow> Inl TypeError)"

section \<open>The database client and the effects of a call\<close>

text \<open>
  A request is built lazily by \<^verbatim>\<open>table(t).delete().eq(col, v)\<close> or
  \<^verbatim>\<open>table(t).insert(payload)\<close> and reaches the service only at \<^verbatim>\<open>execute()\<close>.
\<close>

datatype 'f dbop =
    Delete string string "'f pyval"
  | Insert string "'f pyval"

text \<open>
  The world a call runs in: the requests executed so far, in order, and the state of the
  service. The client is any function that, given a request and the service's state,
  returns the exception it raises (if any) and the next state.
\<close>

record ('f, 'db) world =
  issued :: "'f dbop list"
  store :: 'db

type_synonym ('f, 'db) client = "'f dbop \<Rightarrow> 'db \<Rightarrow> error option \<times> 'db"

type_synonym ('a, 'f, 'db) prog = "('f, 'db) world \<Rightarrow> (error + 'a) \<times> ('f, 'db) world"

definition returnP :: "'a \<Rightarrow> ('a, 'f, 'db) prog" where
  "returnP x = (\<lambda>w. (Inr x, w))"

definition liftP :: "error + 'a \<Rightarrow> ('a, 'f, 'db) prog" where
  "liftP r = (\<lambda>w. (r, w))"

definition bindP :: "('a, 'f, 'db) prog \<Rightarrow> ('a \<Rightarrow> ('b, 'f, 'db) prog) \<Rightarrow> ('b, 'f, 'db) prog" where
  "bindP m f = (\<lambda>w. case m w of (Inl e, w') \<Rightarrow> (Inl e, w') | (Inr x, w') \<Rightarrow> f x w')"

text \<open>\<^verbatim>\<open>try: m except Exception as e: h\<close>.\<close>

definition catchP :: "('a, 'f, 'db) prog \<Rightarrow> (error \<Rightarrow> ('a, 'f, 'db) prog) \<Rightarrow> ('a, 'f, 'db) prog" where
  "catchP m h = (\<lambda>w. case m w of (Inl e, w') \<Rightarrow> h e w' | (Inr x, w') \<Rightarrow> (Inr x, w'))"

definition execute :: "('f, 'db) client \<Rightarrow> 'f dbop \<Rightarrow> (unit, 'f, 'db) prog" where
  "execute cl op =
     (\<lambda>w. case cl op (store w) of
            (None, s') \<Rightarrow> (Inr (), \<lparr>issued = issued w @ [op], store = s'\<rparr>)
          | (Some e, s') \<Rightarrow> (Inl e, \<lparr>issued = issued w @ [op], store = s'\<rparr>))"

section \<open>\<^verbatim>\<open>DatabaseManager.upsert_stock_data\<close>\<close>

text \<open>
  Lines 18 to 30: the row for table \<^verbatim>\<open>stocks\<close>. \<open>now\<close> is the reading of
  \<^verbatim>\<open>datetime.now().isoformat()\<close>.
\<close>

definition build_stock :: "'f numerics \<Rightarrow> string \<Rightarrow> 'f pyval \<Rightarrow> error + 'f pyval" where
  "build_stock num now stock_data =
     bindE (getitem stock_data ''ticker'') (\<lambda>ticker.
     bindE (getitem stock_data ''name'') (\<lambda>name.
     bindE (bindE (py_get stock_data ''sentiment_score'' (PInt 0)) (py_float num)) (\<lambda>score.
     bindE (py_get stock_data ''sentiment_category'' (PStr ''Neutral'')) (\<lambda>category.
     bindE (bindE (py_get stock_data ''investment_score'' (PInt 0)) (py_float num)) (\<lambda>inv.
     bindE (bindE (py_get stock_data ''news_count'' (PInt 0)) (py_int num)) (\<lambda>news.
     bindE (bindE (py_get stock_data ''rank'' (PInt 0)) (py_int num)) (\<lambda>rank.
     bindE (bindE (py_get stock_data ''investment_score'' (PInt 0)) (py_float num)) (\<lambda>inv'.
     Inr (PDict
       [(''ticker'', ticker),
        (''name'', name),
        (''sentiment'', PDict
           [(''score'', PFloat score),
            (''category'', category),
            (''investment_score'', PFloat inv)]),
        (''news_count'', PInt news),
        (''rank'', PInt rank),
        (''investment_score'', PFloat inv'),
        (''last_updated'', PStr now)])))))))))"

text \<open>
  Lines 32 to 36: the delete and the insert on \<^verbatim>\<open>stocks\<close>. The arguments of
  \<^verbatim>\<open>.eq('id', stock['id'])\<close> are evaluated before the request exists.
\<close>

definition replace_stock :: "('f, 'db) client \<Rightarrow> 'f pyval \<Rightarrow> (unit, 'f, 'db) prog" where
  "replace_stock cl stock =
     bindP (liftP (getitem stock ''id'')) (\<lambda>key.
     bindP (execute cl (Delete ''stocks'' ''id'' key)) (\<lambda>_.
     execute cl (Insert ''stocks'' stock)))"

text \<open>Lines 41 to 48: the rows for \<^verbatim>\<open>stock_prices\<close>.\<close>

definition price_row :: "'f numerics \<Rightarrow> 'f pyval \<Rightarrow> 'f pyval \<Rightarrow> error + 'f pyval" where
  "price_row num stock_data price =
     bindE (getitem stock_data ''ticker'') (\<lambda>ticker.
     bindE (getitem price ''date'') (\<lambda>date.
     bindE (bindE (getitem price ''price'') (py_float num)) (\<lambda>p.
     Inr (PDict [(''ticker'', ticker), (''date'', date), (''price'', PFloat p)]))))"

definition historical_rows :: "'f numerics \<Rightarrow> 'f pyval \<Rightarrow> error + 'f pyval list" where
  "historical_rows num stock_data =
     bindE (getitem stock_data ''historical_data'') (\<lambda>h.
     bindE (py_iter h) (mapE (price_row num stock_data)))"

text \<open>Lines 39 to 55.\<close>

definition handle_prices :: "'f numerics \<Rightarrow> ('f, 'db) client \<Rightarrow> 'f pyval \<Rightarrow> (unit, 'f, 'db) prog" where
  "handle_prices num cl stock_data =
     bindP (liftP (py_get stock_data ''historical_data'' PNone)) (\<lambda>h.
     if truthy num h then
       bindP (liftP (historical_rows num stock_data)) (\<lambda>historical_data.
       bindP (liftP (getitem stock_data ''ticker'')) (\<lambda>ticker.
       bindP (execute cl (Delete ''stock_prices'' ''ticker'' ticker)) (\<lambda>_.
       if historical_data \<noteq> [] then execute cl (Insert ''stock_prices'' (PList historical_data))
       else returnP ())))
     else returnP ())"

text \<open>Lines 61 to 71: one pass of the loop over \<^verbatim>\<open>range(len(...))\<close>.\<close>

definition bound_at :: "'f numerics \<Rightarrow> 'f pyval \<Rightarrow> string \<Rightarrow> nat \<Rightarrow> error + 'f pyval" where
  "bound_at num stock_data name i =
     bindE (getitem stock_data ''prediction'') (\<lambda>pred.
     bindE (py_get pred name PNone) (\<lambda>b.
     if truthy num b then
       bindE (getitem stock_data ''prediction'') (\<lambda>pred'.
       bindE (getitem pred' name) (\<lambda>bs. py_index bs i))
     else Inr PNone))"

definition bound_price :: "'f numerics \<Rightarrow> 'f pyval \<Rightarrow> error + 'f pyval" where
  "bound_price num b =
     (if truthy num b then
        bindE (bindE (getitem b ''price'') (py_float num)) (\<lambda>p. Inr (PFloat p))
      else Inr PNone)"

definition prediction_row :: "'f numerics \<Rightarrow> 'f pyval \<Rightarrow> nat \<Rightarrow> error + 'f pyval" where
  "prediction_row num stock_data i =
     bindE (getitem stock_data ''prediction'') (\<lambda>pred.
     bindE (getitem pred ''data'') (\<lambda>data.
     bindE (py_index data i) (\<lambda>pred_data.
     bindE (bound_at num stock_data ''upper_bound'' i) (\<lambda>upper.
     bindE (bound_at num stock_data ''lower_bound'' i) (\<lambda>lower.
     bindE (getitem stock_data ''ticker'') (\<lambda>ticker.
     bindE (getitem pred_data ''date'') (\<lambda>date.
     bindE (bindE (getitem pred_data ''price'') (py_float num)) (\<lambda>p.
     bindE (bound_price num upper) (\<lambda>ub.
     bindE (bound_price num lower) (\<lambda>lb.
     Inr (PDict
       [(''ticker'', ticker),
        (''date'', date),
        (''price'', PFloat p),
        (''upper_bound'', ub),
        (''lower_bound'', lb)])))))))))))"

definition prediction_rows :: "'f numerics \<Rightarrow> 'f pyval \<Rightarrow> error + 'f pyval list" where
  "prediction_rows num stock_data =
     bindE (getitem stock_data ''prediction'') (\<lambda>pred.
     bindE (getitem pred ''data'') (\<lambda>data.
     bindE (py_len data) (\<lambda>n.
     mapE (prediction_row num stock_data) [0..<n])))"

text \<open>
  Line 58: \<^verbatim>\<open>stock_data.get('prediction') and stock_data['prediction'].get('data')\<close>,
  as the \<^verbatim>\<open>if\<close> tests it.
\<close>

definition has_predictions :: "'f numerics \<Rightarrow> 'f pyval \<Rightarrow> error + bool" where
  "has_predictions num stock_data =
     bindE (py_get stock_data ''prediction'' PNone) (\<lambda>p.
     if truthy num p then
       bindE (getitem stock_data ''prediction'') (\<lambda>pred.
       bindE (py_get pred ''data'' PNone) (\<lambda>d. Inr (truthy num d)))
     else Inr False)"

text \<open>Lines 57 to 78.\<close>

definition handle_predictions :: "'f numerics \<Rightarrow> ('f, 'db) client \<Rightarrow> 'f pyval \<Rightarrow> (unit, 'f, 'db) prog" where
  "handle_predictions num cl stock_data =
     bindP (liftP (has_predictions num stock_data)) (\<lambda>c.
     if c then
       bindP (liftP (prediction_rows num stock_data)) (\<lambda>predictions.
       bindP (liftP (getitem stock_data ''ticker'')) (\<lambda>ticker.
       bindP (execute cl (Delete ''stock_predictions'' ''ticker'' ticker)) (\<lambda>_.
       if predictions \<noteq> [] then execute cl (Insert ''stock_predictions'' (PList predictions))
       else returnP ())))
     else returnP ())"

text \<open>Lines 16 to 80, the body of the \<^verbatim>\<open>try\<close>.\<close>

definition upsert_body :: "'f numerics \<Rightarrow> string \<Rightarrow> ('f, 'db) client \<Rightarrow> 'f pyval \<Rightarrow> (bool, 'f, 'db) prog" where
  "upsert_body num now cl stock_data =
     bindP (liftP (build_stock num now stock_data)) (\<lambda>stock.
     bindP (replace_stock cl stock) (\<lambda>_.
     bindP (handle_prices num cl stock_data) (\<lambda>_.
     bindP (handle_predictions num cl stock_data) (\<lambda>_.
     returnP True))))"

text \<open>
  Lines 82 to 84, the handler: the message it prints reads
  \<^verbatim>\<open>stock_data.get('ticker', 'unknown')\<close>, then it returns \<^verbatim>\<open>False\<close>. The text printed
  is not modelled.
\<close>

definition upsert_handler :: "'f pyval \<Rightarrow> error \<Rightarrow> (bool, 'f, 'db) prog" where
  "upsert_handler stock_data e =
     bindP (liftP (py_get stock_data ''ticker'' (PStr ''unknown''))) (\<lambda>_. returnP False)"

definition upsert_stock_data :: "'f numerics \<Rightarrow> string \<Rightarrow> ('f, 'db) client \<Rightarrow> 'f pyval \<Rightarrow> (bool, 'f, 'db) prog" where
  "upsert_stock_data num now cl stock_data =
     catchP (upsert_body num now cl stock_data) (upsert_handler stock_data)"

section \<open>\<^verbatim>\<open>DatabaseManager.write_analysis_to_database\<close>\<close>








section \<open>A reference service and example inputs\<close>

text \<open>
  The hosted tables, for the statements about the stored rows: a table name gives the
  rows of the table. A delete removes the rows whose column holds the value, an insert
  appends its payload (one row or a list of rows).
\<close>

type_synonym 'f tables = "string \<Rightarrow> 'f pyval list"

definition row_matches :: "string \<Rightarrow> 'f pyval \<Rightarrow> 'f pyval \<Rightarrow> bool" where
  "row_matches col v row = (getitem row col = Inr v)"

definition payload_rows :: "'f pyval \<Rightarrow> 'f pyval list" where
  "payload_rows payload = (case payload of PList rows \<Rightarrow> rows | _ \<Rightarrow> [payload])"

definition apply_op :: "'f dbop \<Rightarrow> 'f tables \<Rightarrow> 'f tables" where
  "apply_op op s =
     (case op of
        Delete t col v \<Rightarrow> s(t := filter (\<lambda>row. \<not> row_matches col v row) (s t))
      | Insert t payload \<Rightarrow> s(t := s t @ payload_rows payload))"

text \<open>A service on which every request succeeds.\<close>

definition table_client :: "('f, 'f tables) client" where
  "table_client op s = (None, apply_op op s)"

text \<open>A service on which every delete succeeds and every insert is refused.\<close>

definition insert_failing_client :: "('f, 'f tables) client" where
  "insert_failing_client op s =
     (case op of
        Delete t col v \<Rightarrow> (None, apply_op op s)
      | Insert t payload \<Rightarrow> (Some ClientError, s))"

text \<open>
  One instance of the numeric kernels, for evaluating examples: floats are idealised as
  reals, an integer converts exactly, a float truncates towards zero, and no string is
  taken as numeric (the examples coerce none).
\<close>

definition exact_numerics :: "real numerics" where
  "exact_numerics =
     \<lparr>float_of_int = (\<lambda>i. Inr (of_int i)),
      float_of_str = (\<lambda>s. Inl ValueError),
      int_of_float = (\<lambda>f. Inr (if 0 \<le> f then \<lfloor>f\<rfloor> else \<lceil>f\<rceil>)),
      int_of_str = (\<lambda>s. Inl ValueError),
      float_nonzero = (\<lambda>f. f \<noteq> 0),
      float_succ = (\<lambda>f. f + 1)\<rparr>"

definition empty_world :: "(real, real tables) world" where
  "empty_world = \<lparr>issued = [], store = (\<lambda>t. [])\<rparr>"

text \<open>A record with every field: two price points and two prediction points.\<close>

definition complete_record :: "real pyval" where
  "complete_record = PDict
     [(''ticker'', PStr ''AAPL''),
      (''name'', PStr ''Apple''),
      (''sentiment_score'', PFloat (1 / 2)),
      (''sentiment_category'', PStr ''Positive''),
      (''investment_score'', PFloat 7),
      (''news_count'', PInt 12),
      (''rank'', PInt 1),
      (''historical_data'', PList
         [PDict [(''date'', PStr ''2024-01-02''), (''price'', PFloat 185)],
          PDict [(''date'', PStr ''2024-01-03''), (''price'', PFloat 184)]]),
      (''prediction'', PDict
         [(''data'', PList
            [PDict [(''date'', PStr ''2024-02-01''), (''price'', PFloat 190)],
             PDict [(''date'', PStr ''2024-02-02''), (''price'', PFloat 191)]]),
          (''upper_bound'', PList
            [PDict [(''date'', PStr ''2024-02-01''), (''price'', PFloat 195)],
             PDict [(''date'', PStr ''2024-02-02''), (''price'', PFloat 197)]]),
          (''lower_bound'', PList
            [PDict [(''date'', PStr ''2024-02-01''), (''price'', PFloat 186)],
             PDict [(''date'', PStr ''2024-02-02''), (''price'', PFloat 185)]])])]"

text \<open>A record with the two mandatory fields only.\<close>

definition minimal_record :: "real pyval" where
  "minimal_record = PDict [(''ticker'', PStr ''AAPL''), (''name'', PStr ''Apple'')]"

text \<open>Rows of an earlier run for the ticker \<^verbatim>\<open>AAPL\<close>, and a row of another ticker.\<close>

definition old_price_rows :: "real pyval list" where
  "old_price_rows =
     [PDict [(''ticker'', PStr ''AAPL''), (''date'', PStr ''2023-12-29''), (''price'', PFloat 192)],
      PDict [(''ticker'', PStr ''MSFT''), (''date'', PStr ''2023-12-29''), (''price'', PFloat 376)]]"

definition old_world :: "(real, real tables) world" where
  "old_world = \<lparr>issued = [], store = (\<lambda>t. if t = ''stock_prices'' then old_price_rows else [])\<rparr>"


section \<open>Properties\<close>

lemmas prog_defs = bindP_def liftP_def returnP_def catchP_def execute_def

lemmas val_defs = bindE_def getitem_def py_get_def py_float_def py_int_def truthy_def
  py_index_def py_len_def py_iter_def py_add_one_def

subsection \<open>The row for \<^verbatim>\<open>stocks\<close> has no \<^verbatim>\<open>id\<close>\<close>

lemma build_stock_no_id:
  "build_stock num now stock_data = Inr stock \<Longrightarrow> getitem stock ''id'' = Inl KeyError"
  by (auto simp: build_stock_def bindE_def getitem_def split: sum.splits)

lemma replace_stock_raises:
  "build_stock num now stock_data = Inr stock \<Longrightarrow> replace_stock cl stock w = (Inl KeyError, w)"
  by (simp add: replace_stock_def bindP_def liftP_def build_stock_no_id)

lemma upsert_body_raises:
  "\<exists>e. upsert_body num now cl stock_data w = (Inl e, w)"
proof (cases "build_stock num now stock_data")
  case (Inl e)
  then show ?thesis by (simp add: upsert_body_def bindP_def liftP_def)
next
  case (Inr stock)
  then show ?thesis
    by (simp add: upsert_body_def bindP_def liftP_def replace_stock_raises)
qed

lemma upsert_dict_False:
  "upsert_stock_data num now cl (PDict d) w = (Inr False, w)"
proof -
  obtain e where "upsert_body num now cl (PDict d) w = (Inl e, w)"
    using upsert_body_raises by blast
  then show ?thesis
    by (simp add: upsert_stock_data_def catchP_def upsert_handler_def bindP_def liftP_def
        returnP_def py_get_def)
qed

subsection \<open>Mandatory fields\<close>



subsection \<open>Exceptions at the boundary\<close>



lemma upsert_world_unchanged:
  "snd (upsert_stock_data num now cl stock_data w) = w"
proof -
  obtain e where "upsert_body num now cl stock_data w = (Inl e, w)"
    using upsert_body_raises by blast
  then show ?thesis
    by (cases "py_get stock_data ''ticker'' (PStr ''unknown'')")
       (simp_all add: upsert_stock_data_def upsert_handler_def prog_defs)
qed

subsection \<open>The batch driver\<close>





subsection \<open>The step on \<^verbatim>\<open>stocks\<close>\<close>

text \<open>
  C1, on the code. For a record with every field, two price points and two prediction
  points, the mapper builds two rows for \<^verbatim>\<open>stock_prices\<close> and two for
  \<^verbatim>\<open>stock_predictions\<close>, but the call returns \<^verbatim>\<open>False\<close> and executes no request:
  no row reaches any table.
\<close>

theorem complete_record_not_persisted:
  "upsert_stock_data exact_numerics ''2024-01-05T09:00:00'' table_client complete_record
     empty_world = (Inr False, empty_world) \<and>
   map_sum id length (historical_rows exact_numerics complete_record) = Inr 2 \<and>
   map_sum id length (prediction_rows exact_numerics complete_record) = Inr 2"
proof -
  have "upsert_stock_data exact_numerics ''2024-01-05T09:00:00'' table_client complete_record
     empty_world = (Inr False, empty_world)"
    by (simp add: complete_record_def upsert_dict_False)
  moreover have "map_sum id length (historical_rows exact_numerics complete_record) = Inr 2"
    by (simp add: complete_record_def historical_rows_def price_row_def val_defs)
  moreover have "map_sum id length (prediction_rows exact_numerics complete_record) = Inr 2"
    by (simp add: complete_record_def prediction_rows_def prediction_row_def bound_at_def
        bound_price_def val_defs upt_rec)
  ultimately show ?thesis by blast
qed

text \<open>
  C2, on the code. The delete on \<^verbatim>\<open>stocks\<close> is to be filtered by
  \<^verbatim>\<open>.eq('id', stock['id'])\<close>: the column is \<^verbatim>\<open>id\<close>, not \<^verbatim>\<open>ticker\<close>, and the row
  built for the record has no such key, so the step raises \<^verbatim>\<open>KeyError\<close> before a
  request exists and deletes nothing.
\<close>

theorem stocks_delete_key_missing:
  "bindP (liftP (build_stock exact_numerics ''2024-01-05T09:00:00'' complete_record))
     (replace_stock table_client) old_world = (Inl KeyError, old_world)"
  by (simp add: complete_record_def build_stock_def replace_stock_def exact_numerics_def
      prog_defs val_defs)

text \<open>
  C5, on the code. For a record with the two mandatory fields only, the row for
  \<^verbatim>\<open>stocks\<close> carries the defaults (scores \<^verbatim>\<open>float(0)\<close>, category \<^verbatim>\<open>Neutral\<close>,
  news count 0), but the call returns \<^verbatim>\<open>False\<close> and nothing is written.
\<close>

theorem minimal_record_defaults_not_persisted:
  "build_stock exact_numerics ''2024-01-05T09:00:00'' minimal_record =
     Inr (PDict
       [(''ticker'', PStr ''AAPL''),
        (''name'', PStr ''Apple''),
        (''sentiment'', PDict
           [(''score'', PFloat 0), (''category'', PStr ''Neutral''),
            (''investment_score'', PFloat 0)]),
        (''news_count'', PInt 0),
        (''rank'', PInt 0),
        (''investment_score'', PFloat 0),
        (''last_updated'', PStr ''2024-01-05T09:00:00'')]) \<and>
   upsert_stock_data exact_numerics ''2024-01-05T09:00:00'' table_client minimal_record
     empty_world = (Inr False, empty_world)"
  by (simp add: minimal_record_def build_stock_def exact_numerics_def val_defs upsert_dict_False)

text \<open>
  C8, on the code. On a service that refuses every insert, with rows of an earlier run
  in \<^verbatim>\<open>stock_prices\<close>, the call returns \<^verbatim>\<open>False\<close> and the earlier rows are all
  still there: no delete was executed. The step on \<^verbatim>\<open>stock_prices\<close>, run by itself
  from the same state, does raise after its delete and leaves the ticker without rows.
\<close>

theorem failing_insert_leaves_store:
  "upsert_stock_data exact_numerics ''2024-01-05T09:00:00'' insert_failing_client
     complete_record old_world = (Inr False, old_world) \<and>
   store old_world ''stock_prices'' = old_price_rows \<and>
   fst (handle_prices exact_numerics insert_failing_client complete_record old_world)
     = Inl ClientError \<and>
   store (snd (handle_prices exact_numerics insert_failing_client complete_record old_world))
     ''stock_prices'' =
     [PDict [(''ticker'', PStr ''MSFT''), (''date'', PStr ''2023-12-29''), (''price'', PFloat 376)]]"
  by (simp add: complete_record_def upsert_dict_False old_world_def old_price_rows_def
      handle_prices_def historical_rows_def price_row_def insert_failing_client_def
      apply_op_def row_matches_def exact_numerics_def prog_defs val_defs)

subsection \<open>The steps on \<^verbatim>\<open>stock_prices\<close> and \<^verbatim>\<open>stock_predictions\<close>\<close>

lemma mapE_length: "mapE f xs = Inr ys \<Longrightarrow> length ys = length xs"
  by (induction xs arbitrary: ys) (auto split: sum.splits)

lemma mapE_all: "mapE f xs = Inr ys \<Longrightarrow> y \<in> set ys \<Longrightarrow> \<exists>x. f x = Inr y"
  by (induction xs arbitrary: ys) (auto split: sum.splits)

lemma historical_rows_nonempty:
  assumes "py_get stock_data ''historical_data'' PNone = Inr h" and "truthy num h"
    and "historical_rows num stock_data = Inr rows"
  shows "rows \<noteq> []"
proof -
  from assms(1,2) have "getitem stock_data ''historical_data'' = Inr h"
    by (cases stock_data) (auto simp: py_get_def getitem_def truthy_def split: option.splits)
  with assms(3) obtain xs where it: "py_iter h = Inr xs" and m: "mapE (price_row num stock_data) xs = Inr rows"
    by (auto simp: historical_rows_def bindE_def split: sum.splits)
  from it assms(2) have "xs \<noteq> []"
    by (cases h) (auto simp: py_iter_def truthy_def)
  with mapE_length [OF m] show ?thesis by auto
qed

lemma has_predictions_data:
  assumes "has_predictions num stock_data = Inr True"
  shows "\<exists>pred data. getitem stock_data ''prediction'' = Inr pred \<and>
           getitem pred ''data'' = Inr data \<and> truthy num data"
proof -
  from assms obtain p where p: "py_get stock_data ''prediction'' PNone = Inr p" and tp: "truthy num p"
    by (auto simp: has_predictions_def bindE_def split: sum.splits if_splits)
  from assms p tp obtain pred d where g: "getitem stock_data ''prediction'' = Inr pred"
    and d: "py_get pred ''data'' PNone = Inr d" and td: "truthy num d"
    by (auto simp: has_predictions_def bindE_def split: sum.splits if_splits)
  from d td have "getitem pred ''data'' = Inr d"
    by (cases pred) (auto simp: py_get_def getitem_def truthy_def split: option.splits)
  with g td show ?thesis by blast
qed

lemma prediction_rows_nonempty:
  assumes "has_predictions num stock_data = Inr True"
    and "prediction_rows num stock_data = Inr rows"
  shows "rows \<noteq> []"
proof -
  from has_predictions_data [OF assms(1)] obtain pred data
    where g: "getitem stock_data ''prediction'' = Inr pred"
      and d: "getitem pred ''data'' = Inr data" and td: "truthy num data" by blast
  with assms(2) obtain n where n: "py_len data = Inr n"
    and m: "mapE (prediction_row num stock_data) [0..<n] = Inr rows"
    by (auto simp: prediction_rows_def bindE_def split: sum.splits)
  from n td have "0 < n"
    by (cases data) (auto simp: py_len_def truthy_def)
  with mapE_length [OF m] show ?thesis by auto
qed

lemma handle_prices_skip:
  "py_get stock_data ''historical_data'' PNone = Inr h \<Longrightarrow> \<not> truthy num h \<Longrightarrow>
   handle_prices num cl stock_data w = (Inr (), w)"
  by (simp add: handle_prices_def prog_defs)

lemma handle_predictions_skip:
  "has_predictions num stock_data = Inr False \<Longrightarrow>
   handle_predictions num cl stock_data w = (Inr (), w)"
  by (simp add: handle_predictions_def prog_defs)

lemma handle_prices_run:
  assumes h: "py_get stock_data ''historical_data'' PNone = Inr h" and t: "truthy num h"
    and ok: "fst (handle_prices num cl stock_data w) = Inr ()"
  shows "\<exists>ticker rows. getitem stock_data ''ticker'' = Inr ticker \<and>
           historical_rows num stock_data = Inr rows \<and> rows \<noteq> [] \<and>
           issued (snd (handle_prices num cl stock_data w)) =
             issued w @ [Delete ''stock_prices'' ''ticker'' ticker,
                         Insert ''stock_prices'' (PList rows)]"
proof -
  from h t ok obtain rows where r: "historical_rows num stock_data = Inr rows"
    by (cases "historical_rows num stock_data") (auto simp: handle_prices_def prog_defs)
  from h t ok r obtain ticker where k: "getitem stock_data ''ticker'' = Inr ticker"
    by (cases "getitem stock_data ''ticker''") (auto simp: handle_prices_def prog_defs)
  have ne: "rows \<noteq> []" using historical_rows_nonempty [OF h t r] .
  from h t ok r k ne have "issued (snd (handle_prices num cl stock_data w)) =
      issued w @ [Delete ''stock_prices'' ''ticker'' ticker, Insert ''stock_prices'' (PList rows)]"
    by (auto simp: handle_prices_def prog_defs split: prod.splits option.splits sum.splits)
  with r k ne show ?thesis by blast
qed

lemma handle_predictions_run:
  assumes c: "has_predictions num stock_data = Inr True"
    and ok: "fst (handle_predictions num cl stock_data w) = Inr ()"
  shows "\<exists>ticker rows. getitem stock_data ''ticker'' = Inr ticker \<and>
           prediction_rows num stock_data = Inr rows \<and> rows \<noteq> [] \<and>
           issued (snd (handle_predictions num cl stock_data w)) =
             issued w @ [Delete ''stock_predictions'' ''ticker'' ticker,
                         Insert ''stock_predictions'' (PList rows)]"
proof -
  from c ok obtain rows where r: "prediction_rows num stock_data = Inr rows"
    by (cases "prediction_rows num stock_data") (auto simp: handle_predictions_def prog_defs)
  from c ok r obtain ticker where k: "getitem stock_data ''ticker'' = Inr ticker"
    by (cases "getitem stock_data ''ticker''") (auto simp: handle_predictions_def prog_defs)
  have ne: "rows \<noteq> []" using prediction_rows_nonempty [OF c r] .
  from c ok r k ne have "issued (snd (handle_predictions num cl stock_data w)) =
      issued w @ [Delete ''stock_predictions'' ''ticker'' ticker,
                  Insert ''stock_predictions'' (PList rows)]"
    by (auto simp: handle_predictions_def prog_defs split: prod.splits option.splits sum.splits)
  with r k ne show ?thesis by blast
qed

text \<open>
  C4, as stated, fails: for a record without price points and without prediction
  points, the steps on \<^verbatim>\<open>stock_prices\<close> and \<^verbatim>\<open>stock_predictions\<close> execute no
  delete at all, and the whole call executes no request on any table.
\<close>

theorem empty_series_issue_nothing:
  "handle_prices exact_numerics table_client minimal_record old_world = (Inr (), old_world) \<and>
   handle_predictions exact_numerics table_client minimal_record old_world = (Inr (), old_world) \<and>
   issued (snd (upsert_stock_data exact_numerics ''2024-01-05T09:00:00'' table_client
     minimal_record old_world)) = []"
  by (simp add: minimal_record_def old_world_def handle_prices_def handle_predictions_def
      has_predictions_def upsert_dict_False prog_defs val_defs)

text \<open>
  C4, amended. For \<^verbatim>\<open>stock_prices\<close> and \<^verbatim>\<open>stock_predictions\<close>: when the record's
  series for the table is absent or empty, the step executes neither the delete nor the
  insert; when it is not and the step completes, the step executes exactly a delete
  filtered by \<^verbatim>\<open>ticker\<close> equal to the record's ticker, then an insert of the new rows,
  of which there is at least one.
\<close>

theorem series_steps_guarded:
  "(py_get stock_data ''historical_data'' PNone = Inr h \<and> \<not> truthy num h \<longrightarrow>
      handle_prices num cl stock_data w = (Inr (), w)) \<and>
   (py_get stock_data ''historical_data'' PNone = Inr h \<and> truthy num h \<and>
      fst (handle_prices num cl stock_data w) = Inr () \<longrightarrow>
      (\<exists>ticker rows. getitem stock_data ''ticker'' = Inr ticker \<and>
         historical_rows num stock_data = Inr rows \<and> rows \<noteq> [] \<and>
         issued (snd (handle_prices num cl stock_data w)) =
           issued w @ [Delete ''stock_prices'' ''ticker'' ticker,
                       Insert ''stock_prices'' (PList rows)])) \<and>
   (has_predictions num stock_data = Inr False \<longrightarrow>
      handle_predictions num cl stock_data w = (Inr (), w)) \<and>
   (has_predictions num stock_data = Inr True \<and>
      fst (handle_predictions num cl stock_data w) = Inr () \<longrightarrow>
      (\<exists>ticker rows. getitem stock_data ''ticker'' = Inr ticker \<and>
         prediction_rows num stock_data = Inr rows \<and> rows \<noteq> [] \<and>
         issued (snd (handle_predictions num cl stock_data w)) =
           issued w @ [Delete ''stock_predictions'' ''ticker'' ticker,
                       Insert ''stock_predictions'' (PList rows)]))"
  using handle_prices_skip [of stock_data h num cl w] handle_prices_run [of stock_data h num cl w]
    handle_predictions_skip [of num stock_data cl w] handle_predictions_run [of num stock_data cl w]
  by blast

theorem series_steps_guarded_witness:
  "(py_get minimal_record ''historical_data'' PNone = Inr PNone \<and>
    \<not> truthy exact_numerics PNone \<and>
    handle_prices exact_numerics table_client minimal_record old_world = (Inr (), old_world)) \<and>
   (has_predictions exact_numerics minimal_record = Inr False \<and>
    handle_predictions exact_numerics table_client minimal_record old_world = (Inr (), old_world)) \<and>
   (py_get complete_record ''historical_data'' PNone = Inr (PList
         [PDict [(''date'', PStr ''2024-01-02''), (''price'', PFloat 185)],
          PDict [(''date'', PStr ''2024-01-03''), (''price'', PFloat 184)]]) \<and>
    truthy exact_numerics (PList
         [PDict [(''date'', PStr ''2024-01-02''), (''price'', PFloat 185)],
          PDict [(''date'', PStr ''2024-01-03''), (''price'', PFloat 184)]]) \<and>
    fst (handle_prices exact_numerics table_client complete_record old_world) = Inr () \<and>
    issued (snd (handle_prices exact_numerics table_client complete_record old_world)) =
      [Delete ''stock_prices'' ''ticker'' (PStr ''AAPL''),
       Insert ''stock_prices'' (PList
         [PDict [(''ticker'', PStr ''AAPL''), (''date'', PStr ''2024-01-02''), (''price'', PFloat 185)],
          PDict [(''ticker'', PStr ''AAPL''), (''date'', PStr ''2024-01-03''), (''price'', PFloat 184)]])]) \<and>
   (has_predictions exact_numerics complete_record = Inr True \<and>
    fst (handle_predictions exact_numerics table_client complete_record old_world) = Inr () \<and>
    issued (snd (handle_predictions exact_numerics table_client complete_record old_world)) =
      [Delete ''stock_predictions'' ''ticker'' (PStr ''AAPL''),
       Insert ''stock_predictions'' (PList
         [PDict [(''ticker'', PStr ''AAPL''), (''date'', PStr ''2024-02-01''), (''price'', PFloat 190),
                 (''upper_bound'', PFloat 195), (''lower_bound'', PFloat 186)],
          PDict [(''ticker'', PStr ''AAPL''), (''date'', PStr ''2024-02-02''), (''price'', PFloat 191),
                 (''upper_bound'', PFloat 197), (''lower_bound'', PFloat 185)]])])"
proof -
  have a: "py_get minimal_record ''historical_data'' PNone = Inr PNone \<and>
      \<not> truthy exact_numerics PNone \<and>
      has_predictions exact_numerics minimal_record = Inr False"
    by (simp add: minimal_record_def has_predictions_def val_defs)
  have b: "py_get complete_record ''historical_data'' PNone = Inr (PList
         [PDict [(''date'', PStr ''2024-01-02''), (''price'', PFloat 185)],
          PDict [(''date'', PStr ''2024-01-03''), (''price'', PFloat 184)]]) \<and>
      truthy exact_numerics (PList
         [PDict [(''date'', PStr ''2024-01-02''), (''price'', PFloat 185)],
          PDict [(''date'', PStr ''2024-01-03''), (''price'', PFloat 184)]]) \<and>
      has_predictions exact_numerics complete_record = Inr True"
    by (simp add: complete_record_def has_predictions_def val_defs)
  have c: "getitem complete_record ''ticker'' = Inr (PStr ''AAPL'') \<and>
      historical_rows exact_numerics complete_record = Inr [PDict [(''ticker'', PStr ''AAPL''), (''date'', PStr ''2024-01-02''), (''price'', PFloat 185)],
          PDict [(''ticker'', PStr ''AAPL''), (''date'', PStr ''2024-01-03''), (''price'', PFloat 184)]]"
    by (simp add: complete_record_def historical_rows_def price_row_def val_defs)
  have d: "prediction_rows exact_numerics complete_record = Inr [PDict [(''ticker'', PStr ''AAPL''), (''date'', PStr ''2024-02-01''), (''price'', PFloat 190),
                 (''upper_bound'', PFloat 195), (''lower_bound'', PFloat 186)],
          PDict [(''ticker'', PStr ''AAPL''), (''date'', PStr ''2024-02-02''), (''price'', PFloat 191),
                 (''upper_bound'', PFloat 197), (''lower_bound'', PFloat 185)]]"
    by (simp add: complete_record_def prediction_rows_def prediction_row_def bound_at_def
        bound_price_def val_defs upt_rec)
  have e: "fst (handle_prices exact_numerics table_client complete_record old_world) = Inr ()"
    using b c by (simp add: handle_prices_def table_client_def prog_defs)
  have f: "fst (handle_predictions exact_numerics table_client complete_record old_world) = Inr ()"
    using b c d by (simp add: handle_predictions_def table_client_def prog_defs)
  have g: "issued old_world = []"
    by (simp add: old_world_def)
  show ?thesis
    using a b c d e f g
      series_steps_guarded [of minimal_record PNone exact_numerics table_client old_world]
      series_steps_guarded [of complete_record "PList
         [PDict [(''date'', PStr ''2024-01-02''), (''price'', PFloat 185)],
          PDict [(''date'', PStr ''2024-01-03''), (''price'', PFloat 184)]]"
        exact_numerics table_client old_world]
    by auto
qed

lemma price_row_ticker:
  "getitem stock_data ''ticker'' = Inr ticker \<Longrightarrow> price_row num stock_data p = Inr row \<Longrightarrow>
   row_matches ''ticker'' ticker row"
  by (auto simp: price_row_def row_matches_def bindE_def getitem_def split: sum.splits)

lemma prediction_row_ticker:
  "getitem stock_data ''ticker'' = Inr ticker \<Longrightarrow> prediction_row num stock_data i = Inr row \<Longrightarrow>
   row_matches ''ticker'' ticker row"
  by (simp add: prediction_row_def row_matches_def bindE_def split: sum.splits)
     (auto simp: getitem_def)

lemma historical_rows_ticker:
  assumes "getitem stock_data ''ticker'' = Inr ticker"
    and "historical_rows num stock_data = Inr rows" and "row \<in> set rows"
  shows "row_matches ''ticker'' ticker row"
proof -
  from assms(2) obtain xs where "mapE (price_row num stock_data) xs = Inr rows"
    by (auto simp: historical_rows_def bindE_def split: sum.splits)
  from mapE_all [OF this assms(3)] obtain p where "price_row num stock_data p = Inr row" by blast
  with assms(1) show ?thesis by (rule price_row_ticker)
qed

lemma prediction_rows_ticker:
  assumes "getitem stock_data ''ticker'' = Inr ticker"
    and "prediction_rows num stock_data = Inr rows" and "row \<in> set rows"
  shows "row_matches ''ticker'' ticker row"
proof -
  from assms(2) obtain xs where "mapE (prediction_row num stock_data) xs = Inr rows"
    by (auto simp: prediction_rows_def bindE_def split: sum.splits)
  from mapE_all [OF this assms(3)] obtain i where "prediction_row num stock_data i = Inr row" by blast
  with assms(1) show ?thesis by (rule prediction_row_ticker)
qed

lemma filter_own_rows:
  assumes "\<And>row. row \<in> set rows \<Longrightarrow> P row"
  shows "filter P rows = rows" and "filter (\<lambda>row. \<not> P row) rows = []"
  using assms by (simp_all add: filter_id_conv filter_empty_conv)

lemma handle_prices_store:
  assumes h: "py_get stock_data ''historical_data'' PNone = Inr h" and t: "truthy num h"
    and k: "getitem stock_data ''ticker'' = Inr ticker"
    and r: "historical_rows num stock_data = Inr rows"
  shows "handle_prices num table_client stock_data w =
           (Inr (), \<lparr>issued = issued w @ [Delete ''stock_prices'' ''ticker'' ticker,
                                            Insert ''stock_prices'' (PList rows)],
                     store = (store w)(''stock_prices'' :=
                       filter (\<lambda>row. \<not> row_matches ''ticker'' ticker row) (store w ''stock_prices'') @ rows)\<rparr>)"
  using historical_rows_nonempty [OF h t r] h t k r
  by (simp add: handle_prices_def prog_defs table_client_def apply_op_def payload_rows_def)

lemma handle_predictions_store:
  assumes c: "has_predictions num stock_data = Inr True"
    and k: "getitem stock_data ''ticker'' = Inr ticker"
    and r: "prediction_rows num stock_data = Inr rows"
  shows "handle_predictions num table_client stock_data w =
           (Inr (), \<lparr>issued = issued w @ [Delete ''stock_predictions'' ''ticker'' ticker,
                                            Insert ''stock_predictions'' (PList rows)],
                     store = (store w)(''stock_predictions'' :=
                       filter (\<lambda>row. \<not> row_matches ''ticker'' ticker row) (store w ''stock_predictions'') @ rows)\<rparr>)"
  using prediction_rows_nonempty [OF c r] c k r
  by (simp add: handle_predictions_def prog_defs table_client_def apply_op_def payload_rows_def)

text \<open>
  C6, as stated, fails: for a record without price points, on a service that accepts
  every request, the row of an earlier run for the same ticker is still in
  \<^verbatim>\<open>stock_prices\<close> after a second call, and likewise after the step on
  \<^verbatim>\<open>stock_prices\<close> has run twice by itself.
\<close>

theorem second_call_keeps_old_rows:
  "filter (row_matches ''ticker'' (PStr ''AAPL''))
     (store (snd (upsert_stock_data exact_numerics ''2024-01-05T09:00:00'' table_client minimal_record
        (snd (upsert_stock_data exact_numerics ''2024-01-05T09:00:00'' table_client minimal_record
           old_world)))) ''stock_prices'') =
     [PDict [(''ticker'', PStr ''AAPL''), (''date'', PStr ''2023-12-29''), (''price'', PFloat 192)]] \<and>
   filter (row_matches ''ticker'' (PStr ''AAPL''))
     (store (snd (handle_prices exact_numerics table_client minimal_record
        (snd (handle_prices exact_numerics table_client minimal_record old_world))))
        ''stock_prices'') =
     [PDict [(''ticker'', PStr ''AAPL''), (''date'', PStr ''2023-12-29''), (''price'', PFloat 192)]]"
proof -
  have "handle_prices exact_numerics table_client minimal_record old_world = (Inr (), old_world)"
    by (simp add: minimal_record_def handle_prices_def prog_defs val_defs)
  moreover have "filter (row_matches ''ticker'' (PStr ''AAPL'')) (store old_world ''stock_prices'') =
      [PDict [(''ticker'', PStr ''AAPL''), (''date'', PStr ''2023-12-29''), (''price'', PFloat 192)]]"
    by (simp add: old_world_def old_price_rows_def row_matches_def getitem_def)
  ultimately show ?thesis
    by (simp add: upsert_world_unchanged)
qed

text \<open>
  C6, amended. On a service that accepts every request, for \<^verbatim>\<open>stock_prices\<close> and
  \<^verbatim>\<open>stock_predictions\<close>: when the record's series for the table is not empty and its
  rows map without an exception, the rows of the table for the record's ticker after the
  step are exactly the new rows, and running the step again leaves the store as it was
  after the first run; when the series is absent or empty, the step leaves the store as
  it found it.
\<close>

theorem series_steps_idempotent:
  "(py_get stock_data ''historical_data'' PNone = Inr h \<and> truthy num h \<and>
      getitem stock_data ''ticker'' = Inr ticker \<and> historical_rows num stock_data = Inr rows \<longrightarrow>
      filter (row_matches ''ticker'' ticker)
        (store (snd (handle_prices num table_client stock_data w)) ''stock_prices'') = rows \<and>
      store (snd (handle_prices num table_client stock_data
        (snd (handle_prices num table_client stock_data w)))) =
      store (snd (handle_prices num table_client stock_data w))) \<and>
   (py_get stock_data ''historical_data'' PNone = Inr h \<and> \<not> truthy num h \<longrightarrow>
      store (snd (handle_prices num table_client stock_data w)) = store w) \<and>
   (has_predictions num stock_data = Inr True \<and>
      getitem stock_data ''ticker'' = Inr ticker \<and> prediction_rows num stock_data = Inr rows' \<longrightarrow>
      filter (row_matches ''ticker'' ticker)
        (store (snd (handle_predictions num table_client stock_data w)) ''stock_predictions'') = rows' \<and>
      store (snd (handle_predictions num table_client stock_data
        (snd (handle_predictions num table_client stock_data w)))) =
      store (snd (handle_predictions num table_client stock_data w))) \<and>
   (has_predictions num stock_data = Inr False \<longrightarrow>
      store (snd (handle_predictions num table_client stock_data w)) = store w)"
proof (intro conjI impI; (elim conjE)?)
  assume h: "py_get stock_data ''historical_data'' PNone = Inr h" and t: "truthy num h"
    and k: "getitem stock_data ''ticker'' = Inr ticker"
    and r: "historical_rows num stock_data = Inr rows"
  have m: "\<And>row. row \<in> set rows \<Longrightarrow> row_matches ''ticker'' ticker row"
    using historical_rows_ticker [OF k r] .
  show "filter (row_matches ''ticker'' ticker)
        (store (snd (handle_prices num table_client stock_data w)) ''stock_prices'') = rows"
    by (simp add: handle_prices_store [OF h t k r] filter_own_rows [OF m])
  show "store (snd (handle_prices num table_client stock_data
        (snd (handle_prices num table_client stock_data w)))) =
      store (snd (handle_prices num table_client stock_data w))"
    by (simp add: handle_prices_store [OF h t k r] filter_own_rows [OF m])
next
  assume "py_get stock_data ''historical_data'' PNone = Inr h" and "\<not> truthy num h"
  then show "store (snd (handle_prices num table_client stock_data w)) = store w"
    by (simp add: handle_prices_skip)
next
  assume c: "has_predictions num stock_data = Inr True"
    and k: "getitem stock_data ''ticker'' = Inr ticker"
    and r: "prediction_rows num stock_data = Inr rows'"
  have m: "\<And>row. row \<in> set rows' \<Longrightarrow> row_matches ''ticker'' ticker row"
    using prediction_rows_ticker [OF k r] .
  show "filter (row_matches ''ticker'' ticker)
        (store (snd (handle_predictions num table_client stock_data w)) ''stock_predictions'') = rows'"
    by (simp add: handle_predictions_store [OF c k r] filter_own_rows [OF m])
  show "store (snd (handle_predictions num table_client stock_data
        (snd (handle_predictions num table_client stock_data w)))) =
      store (snd (handle_predictions num table_client stock_data w))"
    by (simp add: handle_predictions_store [OF c k r] filter_own_rows [OF m])
next
  assume "has_predictions num stock_data = Inr False"
  then show "store (snd (handle_predictions num table_client stock_data w)) = store w"
    by (simp add: handle_predictions_skip)
qed

theorem series_steps_idempotent_witness:
  "(py_get complete_record ''historical_data'' PNone = Inr (PList
         [PDict [(''date'', PStr ''2024-01-02''), (''price'', PFloat 185)],
          PDict [(''date'', PStr ''2024-01-03''), (''price'', PFloat 184)]]) \<and>
    truthy exact_numerics (PList
         [PDict [(''date'', PStr ''2024-01-02''), (''price'', PFloat 185)],
          PDict [(''date'', PStr ''2024-01-03''), (''price'', PFloat 184)]]) \<and>
    getitem complete_record ''ticker'' = Inr (PStr ''AAPL'') \<and>
    historical_rows exact_numerics complete_record = Inr [PDict [(''ticker'', PStr ''AAPL''), (''date'', PStr ''2024-01-02''), (''price'', PFloat 185)],
          PDict [(''ticker'', PStr ''AAPL''), (''date'', PStr ''2024-01-03''), (''price'', PFloat 184)]] \<and>
    filter (row_matches ''ticker'' (PStr ''AAPL''))
      (store (snd (handle_prices exact_numerics table_client complete_record old_world))
         ''stock_prices'') = [PDict [(''ticker'', PStr ''AAPL''), (''date'', PStr ''2024-01-02''), (''price'', PFloat 185)],
          PDict [(''ticker'', PStr ''AAPL''), (''date'', PStr ''2024-01-03''), (''price'', PFloat 184)]] \<and>
    store (snd (handle_prices exact_numerics table_client complete_record
      (snd (handle_prices exact_numerics table_client complete_record old_world)))) =
    store (snd (handle_prices exact_numerics table_client complete_record old_world))) \<and>
   (has_predictions exact_numerics complete_record = Inr True \<and>
    prediction_rows exact_numerics complete_record = Inr [PDict [(''ticker'', PStr ''AAPL''), (''date'', PStr ''2024-02-01''), (''price'', PFloat 190),
                 (''upper_bound'', PFloat 195), (''lower_bound'', PFloat 186)],
          PDict [(''ticker'', PStr ''AAPL''), (''date'', PStr ''2024-02-02''), (''price'', PFloat 191),
                 (''upper_bound'', PFloat 197), (''lower_bound'', PFloat 185)]] \<and>
    filter (row_matches ''ticker'' (PStr ''AAPL''))
      (store (snd (handle_predictions exact_numerics table_client complete_record old_world))
         ''stock_predictions'') = [PDict [(''ticker'', PStr ''AAPL''), (''date'', PStr ''2024-02-01''), (''price'', PFloat 190),
                 (''upper_bound'', PFloat 195), (''lower_bound'', PFloat 186)],
          PDict [(''ticker'', PStr ''AAPL''), (''date'', PStr ''2024-02-02''), (''price'', PFloat 191),
                 (''upper_bound'', PFloat 197), (''lower_bound'', PFloat 185)]] \<and>
    store (snd (handle_predictions exact_numerics table_client complete_record
      (snd (handle_predictions exact_numerics table_client complete_record old_world)))) =
    store (snd (handle_predictions exact_numerics table_client complete_record old_world))) \<and>
   (py_get minimal_record ''historical_data'' PNone = Inr PNone \<and>
    \<not> truthy exact_numerics PNone \<and>
    store (snd (handle_prices exact_numerics table_client minimal_record old_world)) =
      store old_world) \<and>
   (has_predictions exact_numerics minimal_record = Inr False \<and>
    store (snd (handle_predictions exact_numerics table_client minimal_record old_world)) =
      store old_world)"
proof -
  have a: "py_get minimal_record ''historical_data'' PNone = Inr PNone \<and>
      \<not> truthy exact_numerics PNone \<and>
      has_predictions exact_numerics minimal_record = Inr False"
    by (simp add: minimal_record_def has_predictions_def val_defs)
  have b: "py_get complete_record ''historical_data'' PNone = Inr (PList
         [PDict [(''date'', PStr ''2024-01-02''), (''price'', PFloat 185)],
          PDict [(''date'', PStr ''2024-01-03''), (''price'', PFloat 184)]]) \<and>
      truthy exact_numerics (PList
         [PDict [(''date'', PStr ''2024-01-02''), (''price'', PFloat 185)],
          PDict [(''date'', PStr ''2024-01-03''), (''price'', PFloat 184)]]) \<and>
      has_predictions exact_numerics complete_record = Inr True"
    by (simp add: complete_record_def has_predictions_def val_defs)
  have c: "getitem complete_record ''ticker'' = Inr (PStr ''AAPL'') \<and>
      historical_rows exact_numerics complete_record = Inr [PDict [(''ticker'', PStr ''AAPL''), (''date'', PStr ''2024-01-02''), (''price'', PFloat 185)],
          PDict [(''ticker'', PStr ''AAPL''), (''date'', PStr ''2024-01-03''), (''price'', PFloat 184)]]"
    by (simp add: complete_record_def historical_rows_def price_row_def val_defs)
  have d: "prediction_rows exact_numerics complete_record = Inr [PDict [(''ticker'', PStr ''AAPL''), (''date'', PStr ''2024-02-01''), (''price'', PFloat 190),
                 (''upper_bound'', PFloat 195), (''lower_bound'', PFloat 186)],
          PDict [(''ticker'', PStr ''AAPL''), (''date'', PStr ''2024-02-02''), (''price'', PFloat 191),
                 (''upper_bound'', PFloat 197), (''lower_bound'', PFloat 185)]]"
    by (simp add: complete_record_def prediction_rows_def prediction_row_def bound_at_def
        bound_price_def val_defs upt_rec)
  show ?thesis
    using a b c d
      series_steps_idempotent [of minimal_record PNone exact_numerics
        "PStr ''AAPL''" "[]" old_world "[]"]
      series_steps_idempotent [of complete_record "PList
         [PDict [(''date'', PStr ''2024-01-02''), (''price'', PFloat 185)],
          PDict [(''date'', PStr ''2024-01-03''), (''price'', PFloat 184)]]"
        exact_numerics "PStr ''AAPL''" "[PDict [(''ticker'', PStr ''AAPL''), (''date'', PStr ''2024-01-02''), (''price'', PFloat 185)],
          PDict [(''ticker'', PStr ''AAPL''), (''date'', PStr ''2024-01-03''), (''price'', PFloat 184)]]" old_world
        "[PDict [(''ticker'', PStr ''AAPL''), (''date'', PStr ''2024-02-01''), (''price'', PFloat 190),
                 (''upper_bound'', PFloat 195), (''lower_bound'', PFloat 186)],
          PDict [(''ticker'', PStr ''AAPL''), (''date'', PStr ''2024-02-02''), (''price'', PFloat 191),
                 (''upper_bound'', PFloat 197), (''lower_bound'', PFloat 185)]]"]
    by blast
qed

end
